theory Spec2Isabelle
  imports Complex_Main "HOL-Library.Word"
begin

unbundle bit_operations_syntax

section \<open>Python values used by the portal\<close>

text \<open>
  The portal is one Python script, \<^verbatim>\<open>simplified_auth_app.py\<close>. Its strings are
  modelled as \<^typ>\<open>string\<close>: a list of characters, each read as one code point
  in the range U+0000 .. U+00FF. Exceptions are values: a computation that can raise
  returns \<open>py_exn + 'a\<close>, with \<open>Inl\<close> for the exception.
\<close>

datatype py_exn = ValueError | OverflowError | IndexError | OSError | ParserError
  | EmptyDataError | UnicodeDecodeError

definition py_bind :: "py_exn + 'a \<Rightarrow> ('a \<Rightarrow> py_exn + 'b) \<Rightarrow> py_exn + 'b" where
  "py_bind r f = (case r of Inl e \<Rightarrow> Inl e | Inr x \<Rightarrow> f x)"

text \<open>\<^verbatim>\<open>try: return body  except: return handler\<close> with a bare \<^verbatim>\<open>except\<close>.\<close>

definition try_except :: "py_exn + 'a \<Rightarrow> (py_exn + 'a) \<Rightarrow> py_exn + 'a" where
  "try_except body handler = (case body of Inl e \<Rightarrow> handler | Inr x \<Rightarrow> Inr x)"

subsection \<open>Characters\<close>

definition is_digit :: "char \<Rightarrow> bool" where
  "is_digit c = (48 \<le> (of_char c :: int) \<and> (of_char c :: int) \<le> 57)"

definition digit_val :: "char \<Rightarrow> int" where
  "digit_val c = of_char c - 48"

definition digit_char :: "int \<Rightarrow> char" where
  "digit_char d = char_of (48 + d)"

text \<open>
  The characters \<^verbatim>\<open>float()\<close> strips from both ends of its argument: the ASCII
  white space of \<^verbatim>\<open>Py_ISSPACE\<close> (tab, line feed, vertical tab, form feed, carriage
  return, space) and, below U+0100, the two non-ASCII characters that
  \<^verbatim>\<open>str.isspace\<close> accepts and \<^verbatim>\<open>float()\<close> first turns into a space
  (U+0085 and U+00A0).
\<close>

definition is_space :: "char \<Rightarrow> bool" where
  "is_space c = ((of_char c :: int) \<in> {9, 10, 11, 12, 13, 32, 133, 160})"

definition to_lower :: "char \<Rightarrow> char" where
  "to_lower c = (if 65 \<le> (of_char c :: int) \<and> (of_char c :: int) \<le> 90
                 then char_of ((of_char c :: int) + 32) else c)"

definition strip :: "string \<Rightarrow> string" where
  "strip s = rev (dropWhile is_space (rev (dropWhile is_space s)))"

subsection \<open>Floating-point numbers\<close>

text \<open>
  A Python \<^verbatim>\<open>float\<close> is an IEEE 754 binary64 value. A finite one is its sign bit
  and its magnitude, an exact rational; the other values are the two infinities and
  NaN.
\<close>

datatype pyfloat = Finite bool rat | Infinity bool | NaN

text \<open>\<^verbatim>\<open>int.bit_length\<close>, for an integer that is not negative.\<close>

function bit_length :: "int \<Rightarrow> int" where
  "bit_length n = (if n \<le> 0 then 0 else 1 + bit_length (n div 2))"
  by pat_completeness auto
termination
  by (relation "measure nat") auto

declare bit_length.simps [simp del]

text \<open>\<open>ilog2 q\<close> is the integer \<open>e\<close> with \<open>2 ^ e \<le> q < 2 ^ (e + 1)\<close>, for \<open>q > 0\<close>.\<close>

definition ilog2 :: "rat \<Rightarrow> int" where
  "ilog2 q = (if 1 \<le> q then bit_length \<lfloor>q\<rfloor> - 1
              else - bit_length (\<lceil>1 / q\<rceil> - 1))"

definition pow2 :: "int \<Rightarrow> rat" where
  "pow2 e = (if 0 \<le> e then 2 ^ nat e else 1 / 2 ^ nat (- e))"

definition pow10 :: "int \<Rightarrow> rat" where
  "pow10 e = (if 0 \<le> e then 10 ^ nat e else 1 / 10 ^ nat (- e))"

text \<open>Rounding to the nearest integer, ties to the even one.\<close>

definition round_half_even :: "rat \<Rightarrow> int" where
  "round_half_even q =
     (let f = \<lfloor>q\<rfloor>; r = q - of_int f
      in if r < 1 / 2 then f else if 1 / 2 < r then f + 1
         else if even f then f else f + 1)"

text \<open>
  The binary64 value nearest to the magnitude \<open>q\<close> (ties to even): 53 significant
  bits, the least exponent of the last bit is \<open>-1074\<close>, and a result of
  \<open>2 ^ 1024\<close> or more is an infinity.
\<close>

definition round_double :: "bool \<Rightarrow> rat \<Rightarrow> pyfloat" where
  "round_double sg q =
     (if q = 0 then Finite sg 0
      else let p = max (ilog2 q - 52) (- 1074);
               r = of_int (round_half_even (q / pow2 p)) * pow2 p
           in if 2 ^ 1024 \<le> r then Infinity sg else Finite sg r)"

subsection \<open>\<^verbatim>\<open>float(str)\<close>\<close>

text \<open>
  Underscores, as \<^verbatim>\<open>_Py_string_to_number_with_underscores\<close> removes them: each
  must stand between two digits. \<open>prev\<close> is the character before, if any.
\<close>

fun strip_underscores :: "char option \<Rightarrow> string \<Rightarrow> string option" where
  "strip_underscores prev [] = (if prev = Some (CHR ''_'') then None else Some [])"
| "strip_underscores prev (c # cs) =
     (if c = CHR ''_''
      then (case prev of
              None \<Rightarrow> None
            | Some p \<Rightarrow> if is_digit p then strip_underscores (Some c) cs else None)
      else if prev = Some (CHR ''_'') \<and> \<not> is_digit c then None
      else map_option ((#) c) (strip_underscores (Some c) cs))"

definition take_sign :: "string \<Rightarrow> bool \<times> string" where
  "take_sign s =
     (case s of
        [] \<Rightarrow> (False, [])
      | c # cs \<Rightarrow> if c = CHR ''-'' then (True, cs)
                 else if c = CHR ''+'' then (False, cs) else (False, s))"

fun int_of_digits :: "int \<Rightarrow> string \<Rightarrow> int" where
  "int_of_digits acc [] = acc"
| "int_of_digits acc (c # cs) = int_of_digits (10 * acc + digit_val c) cs"

text \<open>The exponent part of a decimal literal: nothing, or \<^verbatim>\<open>e\<close>, a sign and digits.\<close>

definition parse_exponent :: "string \<Rightarrow> int option" where
  "parse_exponent s =
     (case s of
        [] \<Rightarrow> Some 0
      | c # cs \<Rightarrow>
          if c = CHR ''e'' \<or> c = CHR ''E''
          then (case take_sign cs of
                  (es, ds) \<Rightarrow>
                    if ds \<noteq> [] \<and> list_all is_digit ds
                    then Some (if es then - int_of_digits 0 ds else int_of_digits 0 ds)
                    else None)
          else None)"

text \<open>
  A decimal literal, as \<^verbatim>\<open>_Py_dg_strtod\<close> reads it: a sign, digits with at most one
  point and at least one digit, an exponent; the whole string must be used. The value
  is rounded correctly.
\<close>

definition parse_decimal :: "string \<Rightarrow> pyfloat option" where
  "parse_decimal s =
     (case take_sign s of
        (sg, r1) \<Rightarrow>
          let ip = takeWhile is_digit r1; r2 = dropWhile is_digit r1;
              fp = (case r2 of [] \<Rightarrow> [] | c # cs \<Rightarrow> if c = CHR ''.'' then takeWhile is_digit cs else []);
              r3 = (case r2 of [] \<Rightarrow> [] | c # cs \<Rightarrow> if c = CHR ''.'' then dropWhile is_digit cs else r2)
          in if ip = [] \<and> fp = [] then None
             else (case parse_exponent r3 of
                     None \<Rightarrow> None
                   | Some ex \<Rightarrow>
                       Some (round_double sg
                         (of_int (int_of_digits 0 (ip @ fp)) * pow10 (ex - int (length fp))))))"

text \<open>\<^verbatim>\<open>inf\<close>, \<^verbatim>\<open>infinity\<close> and \<^verbatim>\<open>nan\<close>, with a sign, in any case
  (\<^verbatim>\<open>_Py_parse_inf_or_nan\<close>).\<close>

definition parse_inf_or_nan :: "string \<Rightarrow> pyfloat option" where
  "parse_inf_or_nan s =
     (case take_sign s of
        (sg, r) \<Rightarrow>
          let l = map to_lower r
          in if l = ''inf'' \<or> l = ''infinity'' then Some (Infinity sg)
             else if l = ''nan'' then Some NaN
             else None)"

definition py_float :: "string \<Rightarrow> py_exn + pyfloat" where
  "py_float s =
     (case strip_underscores None (strip s) of
        None \<Rightarrow> Inl ValueError
      | Some u \<Rightarrow>
          (case parse_decimal u of
             Some x \<Rightarrow> Inr x
           | None \<Rightarrow>
               (case parse_inf_or_nan u of
                  Some x \<Rightarrow> Inr x
                | None \<Rightarrow> Inl ValueError)))"

subsection \<open>\<^verbatim>\<open>int(float)\<close> and the format specifications\<close>

text \<open>\<^verbatim>\<open>int(x)\<close> truncates towards zero; it raises on NaN and on an infinity.\<close>

definition py_int :: "pyfloat \<Rightarrow> py_exn + int" where
  "py_int x =
     (case x of
        NaN \<Rightarrow> Inl ValueError
      | Infinity sg \<Rightarrow> Inl OverflowError
      | Finite sg q \<Rightarrow> Inr (if sg then - \<lfloor>q\<rfloor> else \<lfloor>q\<rfloor>))"

text \<open>The decimal digits of an integer that is not negative.\<close>

function digits10 :: "int \<Rightarrow> string" where
  "digits10 n = (if n < 10 then [digit_char n] else digits10 (n div 10) @ [digit_char (n mod 10)])"
  by pat_completeness auto
termination
  by (relation "measure nat") auto

declare digits10.simps [simp del]

text \<open>The thousands separator of the \<^verbatim>\<open>,\<close> format option: a comma before every
  group of three digits, counted from the right.\<close>

function group3 :: "string \<Rightarrow> string" where
  "group3 ds =
     (if length ds \<le> 3 then ds
      else group3 (take (length ds - 3) ds) @ '','' @ drop (length ds - 3) ds)"
  by pat_completeness auto
termination
  by (relation "measure length") auto

declare group3.simps [simp del]

text \<open>\<^verbatim>\<open>f"{n:,}"\<close> for an \<^verbatim>\<open>int\<close>.\<close>

definition format_int_grouped :: "int \<Rightarrow> string" where
  "format_int_grouped n = (if n < 0 then ''-'' else []) @ group3 (digits10 \<bar>n\<bar>)"

text \<open>\<^verbatim>\<open>f"{x:,.2f}"\<close> for a \<^verbatim>\<open>float\<close>: the exact value rounded to two decimals,
  ties to even; the sign bit gives the sign.\<close>

definition format_float_2f :: "pyfloat \<Rightarrow> string" where
  "format_float_2f x =
     (case x of
        NaN \<Rightarrow> ''nan''
      | Infinity sg \<Rightarrow> (if sg then ''-'' else []) @ ''inf''
      | Finite sg q \<Rightarrow>
          (let k = round_half_even (q * 100)
           in (if sg then ''-'' else []) @ group3 (digits10 (k div 100)) @ ''.'' @
              [digit_char (k mod 100 div 10), digit_char (k mod 10)]))"

section \<open>The metric catalogue\<close>

definition currency_metrics :: "string list" where
  "currency_metrics = [''Total Contributions'', ''Total Grants'', ''Corporate Sponsorships'',
     ''Store Sales'', ''Other Revenue'']"

definition percentage_metrics :: "string list" where
  "percentage_metrics = [''Member Satisfaction Rating'', ''ASANA Adoption'']"

definition endswith :: "string \<Rightarrow> string \<Rightarrow> bool" where
  "endswith s suffix = (length suffix \<le> length s \<and> drop (length s - length suffix) s = suffix)"

text \<open>\<^verbatim>\<open>format_value(value, metric_name)\<close>, lines 183 to 197.\<close>

definition format_value :: "string \<Rightarrow> string \<Rightarrow> py_exn + string" where
  "format_value v metric_name =
     (if metric_name \<in> set currency_metrics
      then try_except
             (py_bind (py_float v) (\<lambda>x. Inr (''$'' @ format_float_2f x)))
             (Inr v)
      else if metric_name \<in> set percentage_metrics
      then (if \<not> endswith v ''%'' then Inr (v @ ''%'') else Inr v)
      else try_except
             (py_bind (py_float v) (\<lambda>x. py_bind (py_int x) (\<lambda>n. Inr (format_int_grouped n))))
             (Inr v))"

section \<open>The submission store\<close>

text \<open>
  One submission, as the handler passes it to \<^verbatim>\<open>save_submission\<close>: the dictionary
  of lines 308 to 318. Every value is text; the key \<^verbatim>\<open>notes\<close> is the field
  \<open>notes_field\<close>.
\<close>

record submission =
  submission_id :: string
  timestamp :: string
  first_name :: string
  last_name :: string
  email :: string
  dashboard_section :: string
  metric_name :: string
  metric_value :: string
  notes_field :: string

text \<open>
  A pandas \<^verbatim>\<open>DataFrame\<close>, as far as the portal uses one: the column labels and the
  rows of cells. The cells of a submission are text. A cell that \<^verbatim>\<open>read_csv\<close> has
  read from a file is text, an integer, a float (NaN where the file has nothing between two
  commas) or a truth value: pandas chooses by the content of the column.
\<close>

datatype cell = Text string | Integer int | Number pyfloat | Boolean bool

record frame =
  columns :: "string list"
  rows :: "cell list list"

text \<open>The column labels of \<^verbatim>\<open>load_submissions\<close>, lines 98 to 101.\<close>

definition submission_columns :: "string list" where
  "submission_columns = [''submission_id'', ''timestamp'', ''first_name'', ''last_name'', ''email'',
     ''dashboard_section'', ''metric_name'', ''metric_value'', ''notes'']"

text \<open>\<^verbatim>\<open>pd.DataFrame(columns=[...])\<close>: the labels and no row.\<close>

definition DataFrame_columns :: "string list \<Rightarrow> frame" where
  "DataFrame_columns labels = \<lparr>columns = labels, rows = []\<rparr>"

text \<open>\<^verbatim>\<open>pd.DataFrame([submission_data])\<close>, line 106: one row, the values of the
  dictionary under its keys, in the order in which lines 308 to 318 insert them.\<close>

definition DataFrame_record :: "submission \<Rightarrow> frame" where
  "DataFrame_record d =
     \<lparr>columns = submission_columns,
      rows = [[Text (submission_id d), Text (timestamp d), Text (first_name d), Text (last_name d),
               Text (email d), Text (dashboard_section d), Text (metric_name d),
               Text (metric_value d), Text (notes_field d)]]\<rparr>"

text \<open>
  The code of three pandas routines decides what the portal stores and reads back, and it
  is not part of the portal: \<^verbatim>\<open>read_csv\<close>, from the bytes of a file to a frame or an
  exception; \<^verbatim>\<open>concat([a, b], ignore_index=True)\<close>; and \<^verbatim>\<open>to_csv(index=False)\<close>,
  from a frame to the bytes it writes. They are parameters of the model, and nothing is
  assumed of them: every property below holds whatever the three routines compute.
\<close>

type_synonym byte = "8 word"

record pandas =
  pd_read_csv :: "byte list \<Rightarrow> py_exn + frame"
  pd_concat :: "frame \<Rightarrow> frame \<Rightarrow> frame"
  pd_to_csv :: "frame \<Rightarrow> byte list"

text \<open>
  The file \<^verbatim>\<open>SUBMISSIONS_FILE\<close> is absent (\<open>None\<close>) or holds bytes. The directory
  \<^verbatim>\<open>data\<close> exists: the script creates it when it starts (lines 22 and 23).
\<close>

type_synonym filesystem = "byte list option"

text \<open>
  What the medium does with one \<^verbatim>\<open>to_csv(path)\<close>, which opens the file for writing
  and then writes the table from its first byte on. The medium takes the whole table; or it
  refuses to open the file (permission denied), which leaves the file as it was; or it opens
  the file, which creates it or empties it, and fails when only the first \<open>k\<close> bytes of
  the table have reached it (disk full).
\<close>

datatype write_outcome = Written | OpenFails | WriteFails nat

text \<open>\<^verbatim>\<open>load_submissions()\<close>, lines 94 to 101. Nothing is written.\<close>

definition load_submissions :: "pandas \<Rightarrow> filesystem \<Rightarrow> py_exn + frame" where
  "load_submissions pd fs =
     (case fs of
        Some content \<Rightarrow> pd_read_csv pd content
      | None \<Rightarrow> Inr (DataFrame_columns submission_columns))"

text \<open>\<^verbatim>\<open>updated_df.to_csv(SUBMISSIONS_FILE, index=False)\<close>: the new state of the file
  and what the call returns.\<close>

definition to_csv_file :: "pandas \<Rightarrow> write_outcome \<Rightarrow> frame \<Rightarrow> filesystem \<Rightarrow> filesystem \<times> (py_exn + unit)" where
  "to_csv_file pd w df fs =
     (case w of
        Written \<Rightarrow> (Some (pd_to_csv pd df), Inr ())
      | OpenFails \<Rightarrow> (fs, Inl OSError)
      | WriteFails k \<Rightarrow> (Some (take k (pd_to_csv pd df)), Inl OSError))"

text \<open>\<^verbatim>\<open>save_submission(submission_data)\<close>, lines 104 to 109: no exception is caught,
  and the only value returned is \<^verbatim>\<open>True\<close>.\<close>

definition save_submission :: "pandas \<Rightarrow> write_outcome \<Rightarrow> submission \<Rightarrow> filesystem \<Rightarrow> filesystem \<times> (py_exn + bool)" where
  "save_submission pd w submission_data fs =
     (case load_submissions pd fs of
        Inl e \<Rightarrow> (fs, Inl e)
      | Inr submissions_df \<Rightarrow>
          (let new_submission = DataFrame_record submission_data;
               updated_df = pd_concat pd submissions_df new_submission
           in case to_csv_file pd w updated_df fs of
                (fs', Inl e) \<Rightarrow> (fs', Inl e)
              | (fs', Inr u) \<Rightarrow> (fs', Inr True)))"

subsection \<open>The identifier\<close>

text \<open>
  \<^verbatim>\<open>uuid.uuid4()\<close> takes 16 random bytes and overwrites the variant and version
  bits; \<^verbatim>\<open>str\<close> prints the 32 hexadecimal digits in five groups.
\<close>

definition uuid4 :: "128 word \<Rightarrow> 128 word" where
  "uuid4 r = (((r AND NOT (push_bit 48 0xc000)) OR push_bit 48 0x8000)
                AND NOT (push_bit 64 0xf000)) OR push_bit 76 4"

definition hex_char :: "nat \<Rightarrow> char" where
  "hex_char n = (if n < 10 then char_of (48 + n) else char_of (87 + n))"

definition hex32 :: "128 word \<Rightarrow> string" where
  "hex32 w = map (\<lambda>i. hex_char (unat (drop_bit (4 * i) w AND 15))) (rev [0..<32])"

definition str_uuid :: "128 word \<Rightarrow> string" where
  "str_uuid w =
     (let h = hex32 w
      in take 8 h @ ''-'' @ take 4 (drop 8 h) @ ''-'' @ take 4 (drop 12 h) @ ''-'' @
         take 4 (drop 16 h) @ ''-'' @ drop 20 h)"

subsection \<open>The submission handler\<close>

text \<open>\<^verbatim>\<open>str.split()\<close> with no argument: the words between runs of white space
  (\<^verbatim>\<open>str.isspace\<close>, here for the characters below U+0100).\<close>

definition is_py_space :: "char \<Rightarrow> bool" where
  "is_py_space c = ((of_char c :: int) \<in> {9, 10, 11, 12, 13, 28, 29, 30, 31, 32, 133, 160})"

function py_split :: "string \<Rightarrow> string list" where
  "py_split s =
     (let t = dropWhile is_py_space s
      in if t = [] then []
         else takeWhile (\<lambda>c. \<not> is_py_space c) t # py_split (dropWhile (\<lambda>c. \<not> is_py_space c) t))"
  by pat_completeness auto
termination
proof (relation "measure length")
  show "wf (measure length)" by simp
next
  fix s t :: string
  assume t: "t = dropWhile is_py_space s" and ne: "t \<noteq> []"
  have "length (dropWhile (\<lambda>c. \<not> is_py_space c) t) < length t"
  proof (cases t)
    case Nil
    with ne show ?thesis by simp
  next
    case (Cons c cs)
    have "\<not> is_py_space c"
      using t Cons hd_dropWhile [of is_py_space s] by (metis list.sel(1) list.distinct(1))
    then have "dropWhile (\<lambda>c. \<not> is_py_space c) t = dropWhile (\<lambda>c. \<not> is_py_space c) cs"
      using Cons by simp
    then show ?thesis
      using Cons length_dropWhile_le [of "\<lambda>c. \<not> is_py_space c" cs] by simp
  qed
  moreover have "length t \<le> length s"
    using t by (simp add: length_dropWhile_le)
  ultimately show "(dropWhile (\<lambda>c. \<not> is_py_space c) t, s) \<in> measure length"
    by simp
qed

declare py_split.simps [simp del]

fun join_words :: "string list \<Rightarrow> string" where
  "join_words [] = []"
| "join_words [w] = w"
| "join_words (w # ws) = w @ '' '' @ join_words ws"

text \<open>The logged-in user of the session, and the fields of the data entry form.\<close>

record user_info =
  name :: string
  user_email :: string

record entry_form =
  form_section :: string
  form_metric :: string
  form_value :: string
  form_notes :: string

text \<open>What the handler takes from outside the program: the 16 random bytes of
  \<^verbatim>\<open>uuid4\<close>, the formatted clock reading, and the medium's answer to the write.\<close>

record environment =
  random_bytes :: "128 word"
  now :: string
  medium :: write_outcome

datatype page = Success_message string | Error_message

text \<open>
  The dictionary \<^verbatim>\<open>submission_data\<close>, lines 307 to 318. \<^verbatim>\<open>split()[0]\<close> raises
  \<^verbatim>\<open>IndexError\<close> on a name with no word.
\<close>

definition submission_data :: "environment \<Rightarrow> user_info \<Rightarrow> entry_form \<Rightarrow> py_exn + submission" where
  "submission_data env user form =
     (let sid = str_uuid (uuid4 (random_bytes env));
          ws = py_split (name user)
      in case ws of
           [] \<Rightarrow> Inl IndexError
         | w # rest \<Rightarrow>
             Inr \<lparr>submission_id = sid, timestamp = now env, first_name = w,
                  last_name = (if length ws > 1 then join_words rest else []),
                  email = user_email user, dashboard_section = form_section form,
                  metric_name = form_metric form, metric_value = form_value form,
                  notes_field = form_notes form\<rparr>)"

text \<open>
  The branch \<^verbatim>\<open>if submitted:\<close>, lines 305 to 336: the page shows the success message
  with the identifier when \<^verbatim>\<open>save_submission\<close> returns a true value and the error
  message when it returns a false one. An exception of \<^verbatim>\<open>save_submission\<close> is not
  caught here either.
\<close>

definition submit :: "pandas \<Rightarrow> environment \<Rightarrow> user_info \<Rightarrow> entry_form \<Rightarrow> filesystem \<Rightarrow> filesystem \<times> (py_exn + page)" where
  "submit pd env user form fs =
     (case submission_data env user form of
        Inl e \<Rightarrow> (fs, Inl e)
      | Inr d \<Rightarrow>
          (case save_submission pd (medium env) d fs of
             (fs', Inl e) \<Rightarrow> (fs', Inl e)
           | (fs', Inr ok) \<Rightarrow>
               (fs', Inr (if ok then Success_message (submission_id d) else Error_message))))"

subsection \<open>The view: filters\<close>

text \<open>Lines 363 to 370: each selection restricts the rows unless it is the entry the
  page adds for no restriction.\<close>

definition apply_filters :: "string \<Rightarrow> string \<Rightarrow> submission list \<Rightarrow> submission list" where
  "apply_filters filter_section filter_metrics submissions_df =
     (let filtered_df = submissions_df;
          filtered_df = (if filter_section \<noteq> ''All Sections''
                         then filter (\<lambda>r. dashboard_section r = filter_section) filtered_df
                         else filtered_df);
          filtered_df = (if filter_metrics \<noteq> ''All Metrics''
                         then filter (\<lambda>r. metric_name r = filter_metrics) filtered_df
                         else filtered_df)
      in filtered_df)"

section \<open>Sample data\<close>

text \<open>Two rows, a session and a form, used where a property is shown on a concrete input.\<close>

definition row_a :: submission where
  "row_a = \<lparr>submission_id = ''00000000-0000-4000-8000-000000000000'',
            timestamp = ''2025-03-01 09:30:00'', first_name = ''GirlTREK'', last_name = ''Admin'',
            email = ''admin@girltrek.org'', dashboard_section = ''Recruitment'',
            metric_name = ''Total New Members'', metric_value = ''250'',
            notes_field = ''first, \"draft\"''\<rparr>"

definition row_b :: submission where
  "row_b = \<lparr>submission_id = ''11111111-1111-4111-8111-111111111111'',
            timestamp = ''2025-03-01 09:30:00'', first_name = ''GirlTREK'', last_name = ''Admin'',
            email = ''admin@girltrek.org'', dashboard_section = ''Development'',
            metric_name = ''Total Contributions'', metric_value = ''$1,234.50'',
            notes_field = []\<rparr>"


definition env_denied :: environment where
  "env_denied = \<lparr>random_bytes = 0, now = ''2025-03-01 09:30:00'', medium = OpenFails\<rparr>"

definition env_full :: environment where
  "env_full = \<lparr>random_bytes = 0, now = ''2025-03-01 09:30:00'', medium = WriteFails 3\<rparr>"

definition admin :: user_info where
  "admin = \<lparr>name = ''GirlTREK Admin'', user_email = ''admin@girltrek.org''\<rparr>"

definition form0 :: entry_form where
  "form0 = \<lparr>form_section = ''Recruitment'', form_metric = ''Total New Members'',
            form_value = ''250'', form_notes = ''first, \"draft\"''\<rparr>"

section \<open>Properties of \<^verbatim>\<open>format_value\<close>\<close>




text \<open>
  C4. The data entry form takes the value of \<^verbatim>\<open>New Member Stories\<close> from a text area
  and stores it as it is (lines 294 and 295). \<^verbatim>\<open>format_value\<close> has no branch for that
  metric: it is neither a currency nor a percentage metric, so its text goes through the
  count branch, and a story that reads as a number is regrouped.
\<close>

theorem free_text_metric_is_grouped:
  "''New Member Stories'' \<notin> set currency_metrics \<and>
   ''New Member Stories'' \<notin> set percentage_metrics \<and>
   format_value ''1234'' ''New Member Stories'' = Inr ''1,234''"
  by code_simp

text \<open>
  C6. For a currency metric, text that \<^verbatim>\<open>float()\<close> reads as NaN or as an infinity is
  neither rendered with two decimals nor returned unchanged; \<^verbatim>\<open>1234.5\<close> is rendered
  as the claim says.
\<close>

theorem currency_nan_inf:
  "format_value ''nan'' ''Total Grants'' = Inr ''$nan'' \<and>
   format_value ''inf'' ''Total Grants'' = Inr ''$inf'' \<and>
   format_value ''1234.5'' ''Total Grants'' = Inr ''$1,234.50''"
  by code_simp

section \<open>Properties of the store\<close>



text \<open>
  C8. The filter is a function of the rows in memory. With both selections left at the
  entries for no restriction it returns its input; with both set it returns, in their
  order, exactly the rows whose section and whose metric equal the selections.
\<close>

theorem apply_filters_spec:
  "apply_filters ''All Sections'' ''All Metrics'' df = df \<and>
   (fs \<noteq> ''All Sections'' \<longrightarrow> fm \<noteq> ''All Metrics'' \<longrightarrow>
      apply_filters fs fm df = filter (\<lambda>r. dashboard_section r = fs \<and> metric_name r = fm) df)"
  by (simp add: apply_filters_def)

theorem apply_filters_spec_witness:
  "''Recruitment'' \<noteq> ''All Sections'' \<and> ''Total New Members'' \<noteq> ''All Metrics'' \<and>
   apply_filters ''Recruitment'' ''Total New Members'' [row_a, row_b] = [row_a]"
  using apply_filters_spec [of "[row_a, row_b]" "''Recruitment''" "''Total New Members''"]
  by (simp add: row_a_def row_b_def)

text \<open>
  C3, as the code has it. When the medium does not take the write,
  \<^verbatim>\<open>save_submission\<close> raises, and so does the handler, which catches nothing and
  therefore shows neither its success message nor its error message: success is never
  reported. When the old file cannot be read, nothing is written. When the medium refuses
  to open the file, the file is left as it was. When the write breaks off after the open,
  the file holds the first bytes of the new table, as many as have reached it, and nothing
  of what it held before.
\<close>

theorem failed_write_raises:
  "medium env \<noteq> Written \<Longrightarrow>
   (\<exists>e. snd (save_submission pd (medium env) r fs) = Inl e) \<and>
   (\<exists>e. snd (submit pd env u f fs) = Inl e) \<and>
   (\<forall>e. load_submissions pd fs = Inl e \<longrightarrow>
      save_submission pd (medium env) r fs = (fs, Inl e)) \<and>
   (medium env = OpenFails \<longrightarrow>
      fst (save_submission pd (medium env) r fs) = fs \<and> fst (submit pd env u f fs) = fs) \<and>
   (\<forall>k df. medium env = WriteFails k \<longrightarrow> load_submissions pd fs = Inr df \<longrightarrow>
      save_submission pd (medium env) r fs =
        (Some (take k (pd_to_csv pd (pd_concat pd df (DataFrame_record r)))), Inl OSError)) \<and>
   (\<forall>k df d. medium env = WriteFails k \<longrightarrow> load_submissions pd fs = Inr df \<longrightarrow>
      submission_data env u f = Inr d \<longrightarrow>
      submit pd env u f fs =
        (Some (take k (pd_to_csv pd (pd_concat pd df (DataFrame_record d)))), Inl OSError))"
  by (cases "medium env")
     (auto simp add: save_submission_def submit_def to_csv_file_def Let_def
           split: sum.splits prod.splits)

theorem failed_write_raises_witness:
  "\<forall>pd. medium env_denied \<noteq> Written \<and> medium env_full \<noteq> Written \<and>
     save_submission pd OpenFails row_b None = (None, Inl OSError) \<and>
     submit pd env_denied admin form0 None = (None, Inl OSError) \<and>
     save_submission pd (WriteFails 3) row_b None =
       (Some (take 3 (pd_to_csv pd (pd_concat pd (DataFrame_columns submission_columns)
                                      (DataFrame_record row_b)))), Inl OSError) \<and>
     submit pd env_full admin form0 None =
       (Some (take 3 (pd_to_csv pd (pd_concat pd (DataFrame_columns submission_columns)
                                      (DataFrame_record row_a)))), Inl OSError)"
proof
  fix pd
  have m: "medium env_denied \<noteq> Written" and o: "medium env_denied = OpenFails"
    by (simp_all add: env_denied_def)
  have n: "medium env_full \<noteq> Written" and w: "medium env_full = WriteFails 3"
    by (simp_all add: env_full_def)
  have l: "load_submissions pd None = Inr (DataFrame_columns submission_columns)"
    by (simp add: load_submissions_def)
  have d: "submission_data env_full admin form0 = Inr row_a"
    by code_simp
  have s: "snd (save_submission pd OpenFails row_b None) = Inl OSError"
    by (simp add: save_submission_def to_csv_file_def load_submissions_def)
  have d0: "submission_data env_denied admin form0 = Inr row_a"
    by code_simp
  have t: "snd (submit pd env_denied admin form0 None) = Inl OSError"
    by (simp add: submit_def d0 o save_submission_def to_csv_file_def load_submissions_def)
  from failed_write_raises [where env=env_denied and pd=pd and r=row_b and fs=None and u=admin and f=form0, OF m] o s t
  have a: "save_submission pd OpenFails row_b None = (None, Inl OSError)"
    and b: "submit pd env_denied admin form0 None = (None, Inl OSError)"
    by (simp_all add: prod_eq_iff)
  from failed_write_raises [where env=env_full and pd=pd and r=row_b and fs=None and u=admin and f=form0, OF n] w l d
  have c: "save_submission pd (WriteFails 3) row_b None =
       (Some (take 3 (pd_to_csv pd (pd_concat pd (DataFrame_columns submission_columns)
                                      (DataFrame_record row_b)))), Inl OSError)"
    and e: "submit pd env_full admin form0 None =
       (Some (take 3 (pd_to_csv pd (pd_concat pd (DataFrame_columns submission_columns)
                                      (DataFrame_record row_a)))), Inl OSError)"
    by simp_all
  from m n a b c e
  show "medium env_denied \<noteq> Written \<and> medium env_full \<noteq> Written \<and>
     save_submission pd OpenFails row_b None = (None, Inl OSError) \<and>
     submit pd env_denied admin form0 None = (None, Inl OSError) \<and>
     save_submission pd (WriteFails 3) row_b None =
       (Some (take 3 (pd_to_csv pd (pd_concat pd (DataFrame_columns submission_columns)
                                      (DataFrame_record row_b)))), Inl OSError) \<and>
     submit pd env_full admin form0 None =
       (Some (take 3 (pd_to_csv pd (pd_concat pd (DataFrame_columns submission_columns)
                                      (DataFrame_record row_a)))), Inl OSError)"
    by simp
qed

text \<open>
  C3, as stated, fails when the write breaks off after the file was opened. Whatever the
  table, a write that fails before its first byte leaves an empty file where the log
  was; and on the first append, where nothing is read, the call raises and the store,
  which had no file, has one.
\<close>

theorem torn_write_changes_log:
  "\<forall>pd df b bs.
     to_csv_file pd (WriteFails 0) df (Some (b # bs)) = (Some [], Inl OSError) \<and>
     Some [] \<noteq> Some (b # bs) \<and>
     save_submission pd (WriteFails 0) row_b None = (Some [], Inl OSError) \<and>
     load_submissions pd (Some []) = pd_read_csv pd []"
  by (simp add: save_submission_def to_csv_file_def load_submissions_def)

text \<open>
  C9, as the code has it. With no file, \<^verbatim>\<open>load_submissions\<close> returns the frame with
  the nine column labels and no row, as a normal result; it has no access to the file
  system but to read it, so it creates nothing. A successful append creates the file,
  which holds what \<^verbatim>\<open>to_csv\<close> writes for that frame joined with the one new row, and
  an append that the medium refuses at the open leaves the file absent.
\<close>

theorem absent_file:
  "load_submissions pd None = Inr \<lparr>columns = submission_columns, rows = []\<rparr> \<and>
   save_submission pd Written r None =
     (Some (pd_to_csv pd (pd_concat pd \<lparr>columns = submission_columns, rows = []\<rparr>
                            (DataFrame_record r))), Inr True) \<and>
   save_submission pd OpenFails r None = (None, Inl OSError)"
  by (simp add: save_submission_def to_csv_file_def load_submissions_def DataFrame_columns_def)

text \<open>
  C9, as stated, fails for an append that breaks off after the open: no append has
  succeeded, and the file exists, with no byte in it.
\<close>

theorem failed_append_creates_file:
  "\<forall>pd. load_submissions pd None = Inr \<lparr>columns = submission_columns, rows = []\<rparr> \<and>
        save_submission pd (WriteFails 0) row_a None = (Some [], Inl OSError)"
  by (simp add: save_submission_def to_csv_file_def load_submissions_def DataFrame_columns_def)




section \<open>Formatting twice\<close>

text \<open>
  What \<^verbatim>\<open>float()\<close> rejects, and what it reads from the digits that
  \<^verbatim>\<open>format_value\<close> itself prints.
\<close>

lemma digit_not_space: "is_digit c \<Longrightarrow> \<not> is_space c"
  by (auto simp add: is_digit_def is_space_def)

lemma digit_not_special:
  "is_digit c \<Longrightarrow> c \<noteq> CHR ''_'' \<and> c \<noteq> CHR ''-'' \<and> c \<noteq> CHR ''+'' \<and> c \<noteq> CHR '','' \<and> c \<noteq> CHR ''.''"
  by (auto simp add: is_digit_def)

lemma digit_char_props:
  "0 \<le> d \<Longrightarrow> d < 10 \<Longrightarrow> is_digit (digit_char d) \<and> digit_val (digit_char d) = d"
  by (simp add: is_digit_def digit_val_def digit_char_def)

lemma in_dropWhile: "x \<in> set xs \<Longrightarrow> \<not> P x \<Longrightarrow> x \<in> set (dropWhile P xs)"
  by (induction xs) auto

lemma in_strip: "x \<in> set s \<Longrightarrow> \<not> is_space x \<Longrightarrow> x \<in> set (strip s)"
proof -
  assume a: "x \<in> set s" and b: "\<not> is_space x"
  then have "x \<in> set (rev (dropWhile is_space s))" by (simp add: in_dropWhile)
  then have "x \<in> set (dropWhile is_space (rev (dropWhile is_space s)))"
    using b by (rule in_dropWhile)
  then show ?thesis by (simp add: strip_def)
qed

lemma strip_underscores_keeps:
  "strip_underscores prev s = Some u \<Longrightarrow> x \<in> set s \<Longrightarrow> x \<noteq> CHR ''_'' \<Longrightarrow> x \<in> set u"
  by (induction prev s arbitrary: u rule: strip_underscores.induct)
     (auto split: if_splits option.splits)

lemma parse_exponent_chars:
  "parse_exponent r = Some ex \<Longrightarrow> x \<in> set r \<Longrightarrow> is_digit x \<or> x \<in> set ''+-eE''"
  by (auto simp add: parse_exponent_def take_sign_def list_all_iff split: list.splits if_splits)

lemma set_span: "set xs = set (takeWhile P xs) \<union> set (dropWhile P xs)"
  by (metis set_append takeWhile_dropWhile_id)

lemma parse_decimal_chars:
  assumes "parse_decimal s = Some y" and "x \<in> set s"
  shows "is_digit x \<or> x \<in> set ''+-.eE''"
proof -
  obtain sg r1 where ts: "take_sign s = (sg, r1)" by (cases "take_sign s")
  have s_r1: "x \<in> set r1 \<or> x \<in> set ''+-''"
    using ts assms(2) by (auto simp add: take_sign_def split: list.splits if_splits)
  define r2 where "r2 = dropWhile is_digit r1"
  define r3 where "r3 = (case r2 of [] \<Rightarrow> [] | c # cs \<Rightarrow> if c = CHR ''.'' then dropWhile is_digit cs else r2)"
  have "parse_exponent r3 \<noteq> None"
    using assms(1) ts unfolding parse_decimal_def Let_def r3_def r2_def
    by (auto split: option.splits if_splits)
  then obtain ex where ex: "parse_exponent r3 = Some ex" by auto
  have r2_r3: "z \<in> set r2 \<Longrightarrow> is_digit z \<or> z = CHR ''.'' \<or> z \<in> set r3" for z
  proof (cases r2)
    case Nil
    then show "z \<in> set r2 \<Longrightarrow> ?thesis" by simp
  next
    case (Cons c cs)
    show "z \<in> set r2 \<Longrightarrow> ?thesis"
    proof (cases "c = CHR ''.''")
      case True
      then have "r3 = dropWhile is_digit cs" using Cons by (simp add: r3_def)
      moreover assume "z \<in> set r2"
      ultimately show ?thesis
        using Cons True set_span [of cs is_digit] set_takeWhileD [of z is_digit cs] by auto
    next
      case False
      then have "r3 = r2" using Cons by (simp add: r3_def)
      moreover assume "z \<in> set r2"
      ultimately show ?thesis by simp
    qed
  qed
  show ?thesis
  proof (cases "x \<in> set r1")
    case False
    with s_r1 show ?thesis by auto
  next
    case True
    then have "x \<in> set (takeWhile is_digit r1) \<or> x \<in> set r2"
      using set_span [of r1 is_digit] by (auto simp add: r2_def)
    then show ?thesis
    proof
      assume "x \<in> set (takeWhile is_digit r1)"
      then show ?thesis using set_takeWhileD by fastforce
    next
      assume "x \<in> set r2"
      from r2_r3 [OF this] show ?thesis
        using parse_exponent_chars [OF ex, of x] by auto
    qed
  qed
qed

lemma parse_inf_or_nan_chars:
  assumes "parse_inf_or_nan s = Some y" and "x \<in> set s"
  shows "x \<in> set ''+-'' \<or> to_lower x \<in> set ''infinitynan''"
proof -
  obtain sg r where ts: "take_sign s = (sg, r)" by (cases "take_sign s")
  have s_r: "x \<in> set r \<or> x \<in> set ''+-''"
    using ts assms(2) by (auto simp add: take_sign_def split: list.splits if_splits)
  from assms(1) ts have l: "map to_lower r = ''inf'' \<or> map to_lower r = ''infinity'' \<or> map to_lower r = ''nan''"
    by (auto simp add: parse_inf_or_nan_def Let_def split: if_splits)
  show ?thesis
  proof (cases "x \<in> set r")
    case False
    with s_r show ?thesis by auto
  next
    case True
    then have "to_lower x \<in> set (map to_lower r)" by simp
    with l show ?thesis by auto
  qed
qed

lemma py_float_rejects:
  assumes "c \<in> set s" and "c = CHR ''$'' \<or> c = CHR '',''"
  shows "py_float s = Inl ValueError"
proof -
  have ns: "\<not> is_space c" using assms(2) by (auto simp add: is_space_def)
  have nd: "\<not> is_digit c" using assms(2) by (auto simp add: is_digit_def)
  have nl: "to_lower c \<notin> set ''infinitynan''" using assms(2) by (auto simp add: to_lower_def)
  have nc: "c \<notin> set ''+-.eE''" "c \<noteq> CHR ''_''" using assms(2) by auto
  have in1: "c \<in> set (strip s)" using assms(1) ns by (rule in_strip)
  show ?thesis
  proof (cases "strip_underscores None (strip s)")
    case None
    then show ?thesis by (simp add: py_float_def)
  next
    case (Some u)
    then have cu: "c \<in> set u" using in1 nc(2) by (rule strip_underscores_keeps)
    have "parse_decimal u = None"
      using parse_decimal_chars [of u _ c] cu nd nc(1) by (cases "parse_decimal u") auto
    moreover have "parse_inf_or_nan u = None"
      using parse_inf_or_nan_chars [of u _ c] cu nl nc(1) by (cases "parse_inf_or_nan u") auto
    ultimately show ?thesis using Some by (simp add: py_float_def)
  qed
qed


lemma int_of_digits_snoc: "int_of_digits acc (xs @ [c]) = 10 * int_of_digits acc xs + digit_val c"
  by (induction xs arbitrary: acc) auto

lemma digits10_props:
  "0 \<le> n \<Longrightarrow> list_all is_digit (digits10 n) \<and> int_of_digits 0 (digits10 n) = n \<and> digits10 n \<noteq> []"
proof (induction n rule: digits10.induct)
  case (1 n)
  show ?case
  proof (cases "n < 10")
    case True
    with "1.prems" show ?thesis
      by (subst (1 2 3) digits10.simps) (simp add: digit_char_props)
  next
    case False
    with "1.prems" have ih: "list_all is_digit (digits10 (n div 10))"
      "int_of_digits 0 (digits10 (n div 10)) = n div 10"
      using "1.IH" by auto
    have d: "is_digit (digit_char (n mod 10))" "digit_val (digit_char (n mod 10)) = n mod 10"
      using digit_char_props [of "n mod 10"] by simp_all
    from False ih d show ?thesis
      by (subst (1 2 3) digits10.simps) (simp add: int_of_digits_snoc)
  qed
qed

lemma digits10_short: "0 \<le> n \<Longrightarrow> n < 1000 \<Longrightarrow> length (digits10 n) \<le> 3"
  by (subst digits10.simps, subst digits10.simps, subst digits10.simps) auto

lemma digits10_nonempty: "1 \<le> length (digits10 n)"
  by (subst digits10.simps) simp

lemma digits10_long: "1000 \<le> n \<Longrightarrow> 3 < length (digits10 n)"
proof -
  assume a: "1000 \<le> n"
  have b: "100 \<le> n div 10" using zdiv_mono1 [of 1000 n 10] a by simp
  have c: "10 \<le> n div 10 div 10" using zdiv_mono1 [of 100 "n div 10" 10] b by simp
  have 1: "digits10 n = digits10 (n div 10) @ [digit_char (n mod 10)]"
    using a by (subst digits10.simps) simp
  have 2: "digits10 (n div 10) = digits10 (n div 10 div 10) @ [digit_char (n div 10 mod 10)]"
    using b by (subst digits10.simps) simp
  have 3: "digits10 (n div 10 div 10) =
             digits10 (n div 10 div 10 div 10) @ [digit_char (n div 10 div 10 mod 10)]"
    using c by (subst digits10.simps) simp
  show ?thesis
    using digits10_nonempty [of "n div 10 div 10 div 10"] by (auto simp add: 1 2 3)
qed

lemma group3_short: "length ds \<le> 3 \<Longrightarrow> group3 ds = ds"
  by (subst group3.simps) simp

lemma group3_long: "3 < length ds \<Longrightarrow> CHR '','' \<in> set (group3 ds)"
  by (subst group3.simps) simp

lemma bit_length_nonneg: "0 \<le> bit_length n"
  by (induction n rule: bit_length.induct) (subst bit_length.simps, simp)

lemma bit_length_bound: "n < 2 ^ k \<Longrightarrow> bit_length n \<le> int k"
proof (induction k arbitrary: n)
  case 0
  then show ?case by (subst bit_length.simps) simp
next
  case (Suc k)
  have "n div 2 < 2 ^ k" using Suc.prems by simp
  then have "bit_length (n div 2) \<le> int k" by (rule Suc.IH)
  then show ?case by (subst bit_length.simps) simp
qed

lemma round_half_even_of_int: "round_half_even (of_int j) = j"
  by (simp add: round_half_even_def)

lemma round_double_small_int:
  assumes "0 \<le> n" and "n < 1000"
  shows "round_double sg (of_int n) = Finite sg (of_int n)"
proof (cases "n = 0")
  case True
  then show ?thesis by (simp add: round_double_def)
next
  case False
  with assms have pos: "1 \<le> n" by simp
  define b where "b = bit_length n"
  have b0: "0 \<le> b" unfolding b_def by (rule bit_length_nonneg)
  have "n < 2 ^ 10" using assms by simp
  then have b10: "b \<le> 10" unfolding b_def using bit_length_bound [of n 10] by simp
  have il: "ilog2 (of_int n) = b - 1"
    using pos by (simp add: ilog2_def b_def)
  define k where "k = nat (53 - b)"
  have p: "max (ilog2 (of_int n) - 52) (- 1074) = - int k"
    using b0 b10 by (simp add: il k_def)
  have pw: "pow2 (- int k) = 1 / 2 ^ k"
    using b10 by (simp add: pow2_def k_def)
  have q: "(of_int n :: rat) / pow2 (- int k) = of_int (n * 2 ^ k)"
    by (simp add: pw)
  have r: "of_int (round_half_even ((of_int n :: rat) / pow2 (- int k))) * pow2 (- int k) = (of_int n :: rat)"
    unfolding q round_half_even_of_int by (simp add: pw)
  have small: "\<not> (2 ^ 1024 \<le> (of_int n :: rat))"
  proof -
    have "(of_int n :: rat) < 1000" using assms by simp
    also have "(1000 :: rat) < 2 ^ 1024" by simp
    finally show ?thesis by simp
  qed
  have nz: "(of_int n :: rat) \<noteq> 0" using pos by simp
  show ?thesis
    using nz small by (simp add: round_double_def Let_def p r)
qed

lemma strip_id: "s \<noteq> [] \<Longrightarrow> \<not> is_space (hd s) \<Longrightarrow> \<not> is_space (last s) \<Longrightarrow> strip s = s"
proof -
  assume a: "s \<noteq> []" "\<not> is_space (hd s)" "\<not> is_space (last s)"
  have 1: "dropWhile is_space s = s" using a by (cases s) auto
  have 2: "dropWhile is_space (rev s) = rev s"
    using a by (cases "rev s") (auto simp add: hd_rev dest: arg_cong [where f = hd])
  show ?thesis by (simp add: strip_def 1 2)
qed

lemma no_underscore:
  "CHR ''_'' \<notin> set s \<Longrightarrow> prev \<noteq> Some (CHR ''_'') \<Longrightarrow> strip_underscores prev s = Some s"
  by (induction s arbitrary: prev) auto

lemma parse_decimal_digits:
  assumes "list_all is_digit ds" and "ds \<noteq> []"
  shows "parse_decimal ds = Some (round_double False (of_int (int_of_digits 0 ds)))"
    and "parse_decimal (CHR ''-'' # ds) = Some (round_double True (of_int (int_of_digits 0 ds)))"
proof -
  have tw: "takeWhile is_digit ds = ds" "dropWhile is_digit ds = []"
    using assms(1) by (simp_all add: list_all_iff)
  obtain c cs where ds: "ds = c # cs" using assms(2) by (cases ds) auto
  then have "is_digit c" using assms(1) by simp
  then have "c \<noteq> CHR ''-''" "c \<noteq> CHR ''+''" using digit_not_special by auto
  then have ts: "take_sign ds = (False, ds)" by (simp add: take_sign_def ds)
  have ts': "take_sign (CHR ''-'' # ds) = (True, ds)" by (simp add: take_sign_def)
  show "parse_decimal ds = Some (round_double False (of_int (int_of_digits 0 ds)))"
    using assms(2) by (simp add: parse_decimal_def ts tw parse_exponent_def pow10_def)
  show "parse_decimal (CHR ''-'' # ds) = Some (round_double True (of_int (int_of_digits 0 ds)))"
    using assms(2) by (simp add: parse_decimal_def ts' tw parse_exponent_def pow10_def)
qed

lemma py_float_small_int:
  assumes "0 \<le> n" and "n < 1000"
  shows "py_float (digits10 n) = Inr (Finite False (of_int n))"
    and "py_float (CHR ''-'' # digits10 n) = Inr (Finite True (of_int n))"
proof -
  have p: "list_all is_digit (digits10 n)" "int_of_digits 0 (digits10 n) = n" "digits10 n \<noteq> []"
    using digits10_props [OF assms(1)] by simp_all
  have ns: "\<not> is_space (hd (digits10 n))" "\<not> is_space (last (digits10 n))"
    using p(1) p(3) digit_not_space by (auto simp add: list_all_iff)
  have nu: "CHR ''_'' \<notin> set (digits10 n)"
    using p(1) digit_not_special by (auto simp add: list_all_iff)
  have s1: "strip (digits10 n) = digits10 n" using p(3) ns by (rule strip_id)
  have s2: "strip (CHR ''-'' # digits10 n) = CHR ''-'' # digits10 n"
    using ns p(3) by (intro strip_id) (simp_all add: is_space_def)
  have u1: "strip_underscores None (digits10 n) = Some (digits10 n)"
    using nu by (simp add: no_underscore)
  have u2: "strip_underscores None (CHR ''-'' # digits10 n) = Some (CHR ''-'' # digits10 n)"
    using nu by (intro no_underscore) simp_all
  show "py_float (digits10 n) = Inr (Finite False (of_int n))"
    by (simp add: py_float_def s1 u1 parse_decimal_digits(1) [OF p(1) p(3)] p(2)
        round_double_small_int [OF assms])
  show "py_float (CHR ''-'' # digits10 n) = Inr (Finite True (of_int n))"
    unfolding py_float_def s2 u2
    by (simp add: parse_decimal_digits(2) [OF p(1) p(3)] p(2) round_double_small_int [OF assms])
qed

lemma format_int_grouped_fixed:
  "py_bind (py_float (format_int_grouped n)) (\<lambda>x. py_bind (py_int x) (\<lambda>k. Inr (format_int_grouped k)))
     = Inr (format_int_grouped n) \<or> py_float (format_int_grouped n) = Inl ValueError"
proof (cases "\<bar>n\<bar> < 1000")
  case False
  then have "3 < length (digits10 \<bar>n\<bar>)" by (intro digits10_long) simp
  then have "CHR '','' \<in> set (format_int_grouped n)"
    using group3_long by (simp add: format_int_grouped_def)
  then show ?thesis using py_float_rejects by blast
next
  case True
  have g: "group3 (digits10 \<bar>n\<bar>) = digits10 \<bar>n\<bar>"
    using True by (intro group3_short digits10_short) simp_all
  show ?thesis
  proof (cases "n < 0")
    case False
    then have "\<bar>n\<bar> = n" by simp
    with True False g show ?thesis
      using py_float_small_int(1) [of n]
      by (simp add: format_int_grouped_def py_bind_def py_int_def)
  next
    case neg: True
    then have fm: "format_int_grouped n = CHR ''-'' # digits10 \<bar>n\<bar>"
      using g by (simp add: format_int_grouped_def)
    have "py_float (CHR ''-'' # digits10 \<bar>n\<bar>) = Inr (Finite True (of_int \<bar>n\<bar>))"
      using True by (intro py_float_small_int(2)) simp_all
    with neg show ?thesis
      by (simp add: fm py_bind_def py_int_def)
  qed
qed

lemma endswith_percent: "endswith (v @ ''%'') ''%''"
  by (simp add: endswith_def)

text \<open>
  C10. \<^verbatim>\<open>format_value\<close> is idempotent: for every metric name and every input
  string, formatting the output again with the same metric returns that output. (The
  first call always returns a string, so the composition of the two calls is written with
  \<open>py_bind\<close>.)
\<close>

theorem format_value_idempotent:
  "py_bind (format_value v m) (\<lambda>s. format_value s m) = format_value v m"
proof (cases "m \<in> set currency_metrics")
  case True
  show ?thesis
  proof (cases "py_float v")
    case (Inl e)
    with True show ?thesis by (simp add: format_value_def try_except_def py_bind_def)
  next
    case (Inr x)
    have "py_float (''$'' @ format_float_2f x) = Inl ValueError"
      by (rule py_float_rejects [of "CHR ''$''"]) simp_all
    with True Inr show ?thesis by (simp add: format_value_def try_except_def py_bind_def)
  qed
next
  case cur: False
  show ?thesis
  proof (cases "m \<in> set percentage_metrics")
    case True
    with cur show ?thesis
      using endswith_percent [of v] by (simp add: format_value_def py_bind_def)
  next
    case False
    show ?thesis
    proof (cases "py_float v")
      case (Inl e)
      with cur False show ?thesis by (simp add: format_value_def try_except_def py_bind_def)
    next
      case (Inr x)
      show ?thesis
      proof (cases "py_int x")
        case (Inl e)
        with cur False Inr show ?thesis by (simp add: format_value_def try_except_def py_bind_def)
      next
        case (Inr n)
        from format_int_grouped_fixed [of n] cur False \<open>py_float v = Inr x\<close> Inr
        show ?thesis
          by (auto simp add: format_value_def try_except_def py_bind_def split: sum.splits)
      qed
    qed
  qed
qed

end
